theory Spec2Isabelle
  imports Complex_Main "HOL-Library.Word"
begin

section \<open>Data model (internal/models)\<close>

text \<open>
  \<open>float64\<close> coordinates and distances are modelled as \<open>real\<close>: the finite floats
  are a subset of the reals with the same order, and all the code does with them is
  compare them with constants and divide a distance by 1000. NaN and the infinities
  are outside the model. Go's \<open>int\<close> is the 64-bit one; it is modelled as \<open>int\<close> with
  the wrap-around of a product written out (\<open>wrap64\<close>). A \<open>primitive.ObjectID\<close> is
  a 12-byte array, here a 96-bit word. \<open>time.Time\<close> is an instant on an integer
  scale.
\<close>

type_synonym ObjectID = "96 word"
type_synonym time = int

record Location =
  Lat :: real
  Lon :: real

record Driver =
  ID :: ObjectID
  FirstName :: string
  LastName :: string
  Plate :: string
  TaxiType :: string
  CarBrand :: string
  CarModel :: string
  Location :: Location
  CreatedAt :: time
  UpdatedAt :: time

record DriverWithDistance =
  Driver :: Driver
  DistanceKm :: real

definition TaxiTypeSari :: string where "TaxiTypeSari = ''sari''"
definition TaxiTypeTurkuaz :: string where "TaxiTypeTurkuaz = ''turkuaz''"
definition TaxiTypeSiyah :: string where "TaxiTypeSiyah = ''siyah''"

definition IsValidTaxiType :: "string \<Rightarrow> bool" where
  "IsValidTaxiType taxiType =
     (if taxiType = TaxiTypeSari \<or> taxiType = TaxiTypeTurkuaz \<or> taxiType = TaxiTypeSiyah
      then True else False)"

record CreateDriverRequest =
  cr_FirstName :: string
  cr_LastName :: string
  cr_Plate :: string
  cr_TaxiType :: string
  cr_CarBrand :: string
  cr_CarModel :: string
  cr_Lat :: real
  cr_Lon :: real

text \<open>A pointer field of the update request is an option: \<open>None\<close> is the nil pointer.\<close>

record UpdateDriverRequest =
  ur_FirstName :: "string option"
  ur_LastName :: "string option"
  ur_TaxiType :: "string option"
  ur_CarBrand :: "string option"
  ur_CarModel :: "string option"
  ur_Lat :: "real option"
  ur_Lon :: "real option"

record UpdateLocationRequest =
  lr_Lat :: real
  lr_Lon :: real

section \<open>Struct validation (go-playground/validator v10, as used by models/dto.go)\<close>

text \<open>
  The validator library is a dependency, not part of the repository. Its behaviour
  for the tags that \<open>dto.go\<close> uses is written out here from the library's
  documentation: a field's tags run left to right and the first failing tag is the
  field's error; \<open>required\<close> fails on the zero value of the field's type (the empty
  string, the number 0, a nil pointer); \<open>omitempty\<close> stops the field's validation
  without an error when the field has no value; \<open>min\<close> and \<open>max\<close> compare the
  rune count of a string and the value of a number; \<open>oneof\<close> compares a string
  with the listed words. A non-nil pointer always counts as having a value, and the
  remaining tags then run on what it points to.
\<close>

datatype fvalue = VString string | VFloat real

datatype field = Val fvalue | Ptr "fvalue option"

datatype tag = Required | OmitEmpty | Min int | Max int | OneOf "string list" | TurkishPlate

datatype FieldError = FieldError string tag

text \<open>
  \<open>utf8.RuneCountInString\<close> on a string of valid UTF-8 (what the JSON decoder
  delivers): every byte that is not a continuation byte starts one rune.
\<close>

definition is_continuation_byte :: "char \<Rightarrow> bool" where
  "is_continuation_byte c = (128 \<le> (of_char c :: nat) \<and> (of_char c :: nat) < 192)"

definition RuneCountInString :: "string \<Rightarrow> nat" where
  "RuneCountInString s = length (filter (\<lambda>c. \<not> is_continuation_byte c) s)"

text \<open>The character classes of the two regular expressions: \<open>\s\<close>, \<open>[0-9]\<close>, \<open>[A-Za-z]\<close>.\<close>

definition is_space :: "char \<Rightarrow> bool" where
  "is_space c = ((of_char c :: nat) \<in> {9, 10, 12, 13, 32})"

definition is_digit :: "char \<Rightarrow> bool" where
  "is_digit c = (48 \<le> (of_char c :: nat) \<and> (of_char c :: nat) \<le> 57)"

definition is_letter :: "char \<Rightarrow> bool" where
  "is_letter c = ((65 \<le> (of_char c :: nat) \<and> (of_char c :: nat) \<le> 90) \<or>
                  (97 \<le> (of_char c :: nat) \<and> (of_char c :: nat) \<le> 122))"

text \<open>
  \<open>TurkishLicensePlateValidator\<close>: all white space is removed, then the whole rest
  must match \<open>^[0-9]{2}[A-Za-z]{1,3}[0-9]{1,4}$\<close>. Letters and digits are disjoint
  classes, so the letter group is the longest run of letters after the two digits.
\<close>

definition TurkishLicensePlateValidator :: "string \<Rightarrow> bool" where
  "TurkishLicensePlateValidator plate =
     (let plateNoSpace = filter (\<lambda>c. \<not> is_space c) plate;
          province = take 2 plateNoSpace;
          letters = takeWhile is_letter (drop 2 plateNoSpace);
          digits = dropWhile is_letter (drop 2 plateNoSpace)
      in length province = 2 \<and> list_all is_digit province \<and>
         1 \<le> length letters \<and> length letters \<le> 3 \<and>
         1 \<le> length digits \<and> length digits \<le> 4 \<and> list_all is_digit digits)"

fun hasValue :: "field \<Rightarrow> bool" where
  "hasValue (Val (VString s)) = (s \<noteq> [])"
| "hasValue (Val (VFloat x)) = (x \<noteq> 0)"
| "hasValue (Ptr None) = False"
| "hasValue (Ptr (Some v)) = True"

fun field_value :: "field \<Rightarrow> fvalue option" where
  "field_value (Val v) = Some v"
| "field_value (Ptr p) = p"

text \<open>
  One tag on one field. A nil pointer fails every tag; \<open>oneof\<close> and the plate
  validator are only ever attached to strings in \<open>dto.go\<close>.
\<close>

fun check_tag :: "tag \<Rightarrow> field \<Rightarrow> bool" where
  "check_tag Required f = hasValue f"
| "check_tag OmitEmpty f = True"
| "check_tag (Min p) f =
     (case field_value f of
        Some (VString s) \<Rightarrow> p \<le> int (RuneCountInString s)
      | Some (VFloat x) \<Rightarrow> of_int p \<le> x
      | None \<Rightarrow> False)"
| "check_tag (Max p) f =
     (case field_value f of
        Some (VString s) \<Rightarrow> int (RuneCountInString s) \<le> p
      | Some (VFloat x) \<Rightarrow> x \<le> of_int p
      | None \<Rightarrow> False)"
| "check_tag (OneOf vs) f =
     (case field_value f of Some (VString s) \<Rightarrow> s \<in> set vs | _ \<Rightarrow> False)"
| "check_tag TurkishPlate f =
     (case field_value f of Some (VString s) \<Rightarrow> TurkishLicensePlateValidator s | _ \<Rightarrow> False)"

fun run_tags :: "string \<Rightarrow> tag list \<Rightarrow> field \<Rightarrow> FieldError list" where
  "run_tags n [] f = []"
| "run_tags n (OmitEmpty # ts) f = (if hasValue f then run_tags n ts f else [])"
| "run_tags n (t # ts) f = (if check_tag t f then run_tags n ts f else [FieldError n t])"

text \<open>\<open>validate.Struct\<close>: the fields in declaration order, each with its tags.\<close>

fun validate_Struct :: "(string \<times> tag list \<times> field) list \<Rightarrow> FieldError list" where
  "validate_Struct [] = []"
| "validate_Struct ((n, ts, f) # fs) = run_tags n ts f @ validate_Struct fs"

section \<open>Errors\<close>

text \<open>
  A Go \<open>error\<close> value. The package-level sentinels of \<open>service\<close> and \<open>repository\<close>
  are constructors of their own; \<open>New\<close> is an error made on the spot by
  \<open>errors.New\<close> or by \<open>fmt.Errorf\<close> without \<open>%w\<close> (it is no sentinel and wraps
  nothing); \<open>Wrap\<close> is \<open>fmt.Errorf("...: %w", err)\<close>. The remaining constructors
  are what the libraries hand back: the validator's list of field errors, the
  driver's \<open>ErrNoDocuments\<close>, a duplicate-key write error, a rejected command, and
  the failure of \<open>ObjectIDFromHex\<close>.
\<close>

datatype error =
    New string
  | Wrap string error
  | ValidationErrors "FieldError list"
  | service_ErrDriverNotFound
  | service_ErrDriverAlreadyExists
  | service_ErrInvalidID
  | service_ErrInvalidPlate
  | service_ErrInvalidLocation
  | service_ErrInvalidTaxiType
  | service_ErrValidationFailed
  | service_ErrRepositoryError
  | repository_ErrDriverNotFound
  | repository_ErrDriverAlreadyExists
  | repository_ErrInvalidID
  | repository_ErrInvalidCoordinates
  | repository_ErrInvalidRadius
  | repository_ErrDatabaseError
  | mongo_ErrNoDocuments
  | mongo_DuplicateKey
  | mongo_CommandError string
  | primitive_ErrInvalidHex
  | hex_InvalidByteError

text \<open>\<open>errors.Is\<close>: the error itself or anything in its chain of wrapped errors.\<close>

fun errors_Is :: "error \<Rightarrow> error \<Rightarrow> bool" where
  "errors_Is (Wrap m e) target = (Wrap m e = target \<or> errors_Is e target)"
| "errors_Is e target = (e = target)"

definition validation_result :: "FieldError list \<Rightarrow> error option" where
  "validation_result errs = (if errs = [] then None else Some (ValidationErrors errs))"

definition CreateDriverRequest_Validate :: "CreateDriverRequest \<Rightarrow> error option" where
  "CreateDriverRequest_Validate r = validation_result (validate_Struct
     [(''FirstName'', [Required, Min 2, Max 50], Val (VString (cr_FirstName r))),
      (''LastName'', [Required, Min 2, Max 50], Val (VString (cr_LastName r))),
      (''Plate'', [Required, TurkishPlate], Val (VString (cr_Plate r))),
      (''TaxiType'', [Required, OneOf [''sari'', ''turkuaz'', ''siyah'']], Val (VString (cr_TaxiType r))),
      (''CarBrand'', [Required, Min 2, Max 30], Val (VString (cr_CarBrand r))),
      (''CarModel'', [Required, Min 1, Max 30], Val (VString (cr_CarModel r))),
      (''Lat'', [Required, Min (- 90), Max 90], Val (VFloat (cr_Lat r))),
      (''Lon'', [Required, Min (- 180), Max 180], Val (VFloat (cr_Lon r)))])"

definition UpdateDriverRequest_Validate :: "UpdateDriverRequest \<Rightarrow> error option" where
  "UpdateDriverRequest_Validate r = validation_result (validate_Struct
     [(''FirstName'', [OmitEmpty, Min 2, Max 50], Ptr (map_option VString (ur_FirstName r))),
      (''LastName'', [OmitEmpty, Min 2, Max 50], Ptr (map_option VString (ur_LastName r))),
      (''TaxiType'', [OmitEmpty, OneOf [''sari'', ''turkuaz'', ''siyah'']], Ptr (map_option VString (ur_TaxiType r))),
      (''CarBrand'', [OmitEmpty, Min 2, Max 30], Ptr (map_option VString (ur_CarBrand r))),
      (''CarModel'', [OmitEmpty, Min 1, Max 30], Ptr (map_option VString (ur_CarModel r))),
      (''Lat'', [OmitEmpty, Min (- 90), Max 90], Ptr (map_option VFloat (ur_Lat r))),
      (''Lon'', [OmitEmpty, Min (- 180), Max 180], Ptr (map_option VFloat (ur_Lon r)))])"

definition UpdateLocationRequest_Validate :: "UpdateLocationRequest \<Rightarrow> error option" where
  "UpdateLocationRequest_Validate r = validation_result (validate_Struct
     [(''Lat'', [Required, Min (- 90), Max 90], Val (VFloat (lr_Lat r))),
      (''Lon'', [Required, Min (- 180), Max 180], Val (VFloat (lr_Lon r)))])"

section \<open>Object identifiers (bson/primitive)\<close>

text \<open>
  \<open>ObjectID.Hex\<close> writes the 12 bytes as 24 lower-case hexadecimal digits,
  \<open>ObjectIDFromHex\<close> wants exactly 24 characters and decodes them, accepting both
  cases of the letters. \<open>NilObjectID\<close> is the all-zero identifier.
\<close>

definition hex_digit :: "nat \<Rightarrow> char" where
  "hex_digit n = (if n < 10 then char_of (48 + n) else char_of (87 + n))"

definition hex_value :: "char \<Rightarrow> nat option" where
  "hex_value c =
     (let k = (of_char c :: nat)
      in if 48 \<le> k \<and> k \<le> 57 then Some (k - 48)
         else if 97 \<le> k \<and> k \<le> 102 then Some (k - 87)
         else if 65 \<le> k \<and> k \<le> 70 then Some (k - 55)
         else None)"

fun to_hex :: "nat \<Rightarrow> nat \<Rightarrow> string" where
  "to_hex 0 n = []"
| "to_hex (Suc k) n = to_hex k (n div 16) @ [hex_digit (n mod 16)]"

fun from_hex :: "nat \<Rightarrow> string \<Rightarrow> nat option" where
  "from_hex acc [] = Some acc"
| "from_hex acc (c # cs) =
     (case hex_value c of None \<Rightarrow> None | Some v \<Rightarrow> from_hex (acc * 16 + v) cs)"

definition NilObjectID :: ObjectID where
  "NilObjectID = 0"

definition IsZero :: "ObjectID \<Rightarrow> bool" where
  "IsZero oid = (oid = NilObjectID)"

definition Hex :: "ObjectID \<Rightarrow> string" where
  "Hex oid = to_hex 24 (unat oid)"

definition ObjectIDFromHex :: "string \<Rightarrow> error + ObjectID" where
  "ObjectIDFromHex s =
     (if length s \<noteq> 24 then Inl primitive_ErrInvalidHex
      else case from_hex 0 s of
             None \<Rightarrow> Inl hex_InvalidByteError
           | Some n \<Rightarrow> Inr (word_of_nat n))"

section \<open>The document store (mongo-driver, as used by internal/repository)\<close>

text \<open>
  The \<open>drivers\<close> collection is the list of its documents in insertion order. The
  database is an external collaborator; each operation the repository calls is
  written out from the driver's and the server's documentation, for a store that
  is reachable: only the failures that the data decides are modelled.

  Modelled from the spec: the unique index on \<open>plate\<close> is created outside the
  repository's sources (section 6 of the specification: the persistence handle has
  a uniqueness constraint on plate), so a write that would give two documents the
  same plate, or the same \<open>_id\<close>, fails with a duplicate-key error.
\<close>

type_synonym collection = "Driver list"

definition InsertOne :: "collection \<Rightarrow> Driver \<Rightarrow> error + (ObjectID \<times> collection)" where
  "InsertOne c d =
     (if list_ex (\<lambda>x. ID x = ID d \<or> Plate x = Plate d) c then Inl mongo_DuplicateKey
      else Inr (ID d, c @ [d]))"

definition IsDuplicateKeyError :: "error \<Rightarrow> bool" where
  "IsDuplicateKeyError err = (err = mongo_DuplicateKey)"

text \<open>\<open>FindOne(filter).Decode\<close>: the first matching document, or \<open>ErrNoDocuments\<close>.\<close>

definition FindOne :: "collection \<Rightarrow> (Driver \<Rightarrow> bool) \<Rightarrow> error + Driver" where
  "FindOne c flt = (case find flt c of None \<Rightarrow> Inl mongo_ErrNoDocuments | Some d \<Rightarrow> Inr d)"

fun update_first :: "('a \<Rightarrow> bool) \<Rightarrow> ('a \<Rightarrow> 'a) \<Rightarrow> 'a list \<Rightarrow> 'a list" where
  "update_first P f [] = []"
| "update_first P f (x # xs) = (if P x then f x # xs else x # update_first P f xs)"

fun remove_first :: "('a \<Rightarrow> bool) \<Rightarrow> 'a list \<Rightarrow> 'a list" where
  "remove_first P [] = []"
| "remove_first P (x # xs) = (if P x then xs else x # remove_first P xs)"

text \<open>
  \<open>UpdateOne({_id: oid}, {$set: ...})\<close>: the result is the matched count and the
  collection after the write; the write is refused when it would give the document
  the plate of another one.
\<close>

definition UpdateOne ::
    "collection \<Rightarrow> ObjectID \<Rightarrow> (Driver \<Rightarrow> Driver) \<Rightarrow> error + (nat \<times> collection)" where
  "UpdateOne c oid upd =
     (case find (\<lambda>x. ID x = oid) c of
        None \<Rightarrow> Inr (0, c)
      | Some d \<Rightarrow>
          if list_ex (\<lambda>x. ID x \<noteq> oid \<and> Plate x = Plate (upd d)) c then Inl mongo_DuplicateKey
          else Inr (1, update_first (\<lambda>x. ID x = oid) upd c))"

definition DeleteOne :: "collection \<Rightarrow> ObjectID \<Rightarrow> error + (nat \<times> collection)" where
  "DeleteOne c oid =
     (case find (\<lambda>x. ID x = oid) c of
        None \<Rightarrow> Inr (0, c)
      | Some d \<Rightarrow> Inr (1, remove_first (\<lambda>x. ID x = oid) c))"

definition CountDocuments :: "collection \<Rightarrow> error + int" where
  "CountDocuments c = Inr (int (length c))"

text \<open>
  \<open>Find\<close> with the options the repository sets: sort by \<open>created_at\<close> descending,
  then skip, then limit. The server refuses a negative skip; a limit of 0 means no
  limit and a negative one counts as its absolute value. Documents with the same
  creation time come in insertion order here (the server promises no order among
  them).
\<close>

definition sort_created_at_desc :: "collection \<Rightarrow> Driver list" where
  "sort_created_at_desc c = sort_key (\<lambda>d. - CreatedAt d) c"

definition Find_sorted :: "collection \<Rightarrow> int \<Rightarrow> int \<Rightarrow> error + Driver list" where
  "Find_sorted c skip limit =
     (if skip < 0 then Inl (mongo_CommandError ''skip value must be non-negative'')
      else let rest = drop (nat skip) (sort_created_at_desc c)
           in Inr (if limit = 0 then rest else take (nat \<bar>limit\<bar>) rest))"

text \<open>
  The aggregation pipeline of \<open>FindNearby\<close>. The great-circle distance that the
  server computes is a parameter \<open>geo\<close>: the distance in meters between a stored
  \<open>location\<close> field and the coordinates \<open>(lon, lat)\<close> of a GeoJSON point.
  \<open>$geoNear\<close> adds the distance to every document, drops those beyond
  \<open>maxDistance\<close> and delivers the rest nearest first; \<open>$match\<close> and \<open>$limit\<close>
  keep the order.
\<close>

type_synonym geo = "Location \<Rightarrow> real \<times> real \<Rightarrow> real"

datatype stage = Match_taxi_type string | Limit nat

definition geoNear :: "geo \<Rightarrow> real \<times> real \<Rightarrow> real \<Rightarrow> collection \<Rightarrow> (Driver \<times> real) list" where
  "geoNear g near maxDistance c =
     sort_key snd (filter (\<lambda>p. snd p \<le> maxDistance) (map (\<lambda>d. (d, g (Location d) near)) c))"

fun run_stage :: "stage \<Rightarrow> (Driver \<times> real) list \<Rightarrow> (Driver \<times> real) list" where
  "run_stage (Match_taxi_type t) docs = filter (\<lambda>p. TaxiType (fst p) = t) docs"
| "run_stage (Limit n) docs = take n docs"

definition Aggregate ::
    "geo \<Rightarrow> collection \<Rightarrow> real \<times> real \<Rightarrow> real \<Rightarrow> stage list \<Rightarrow> error + (Driver \<times> real) list" where
  "Aggregate g c near maxDistance stages = Inr (fold run_stage stages (geoNear g near maxDistance c))"

text \<open>
  Modelled from the spec: the distance that the store computes is not in the
  sources. Sections 4.2 and 4.3 of the specification make it the great-circle
  distance on a sphere between the driver's Location and the query point. It is
  written here as the haversine formula, in meters, on a sphere of radius
  6378.1 km, between the point that the stored latitude and longitude name and the
  coordinates \<open>(lon, lat)\<close> of the query's GeoJSON point, all in degrees.
\<close>

definition earth_radius_m :: real where
  "earth_radius_m = 6378100"

definition radians :: "real \<Rightarrow> real" where
  "radians deg = deg * pi / 180"

definition great_circle :: "real \<times> real \<Rightarrow> real \<times> real \<Rightarrow> real" where
  "great_circle p q =
     (let phi1 = radians (snd p);
          phi2 = radians (snd q);
          dphi = radians (snd q - snd p);
          dlambda = radians (fst q - fst p);
          h = (sin (dphi / 2))\<^sup>2 + cos phi1 * cos phi2 * (sin (dlambda / 2))\<^sup>2
      in 2 * earth_radius_m * arcsin (sqrt h))"

definition store_distance :: geo where
  "store_distance loc near = great_circle (Lon loc, Lat loc) near"

section \<open>The repository (internal/repository/driver_repository.go)\<close>

text \<open>
  Every repository function takes the collection as it is and returns its result
  together with the collection afterwards when it writes. A \<open>*models.Driver\<close>
  argument is an option (\<open>None\<close> is nil). What \<open>time.Now()\<close> and
  \<open>primitive.NewObjectID()\<close> deliver is an argument of the function that calls them.
\<close>

definition repository_Create ::
    "collection \<Rightarrow> time \<Rightarrow> ObjectID \<Rightarrow> Driver option \<Rightarrow> (error + string) \<times> collection" where
  "repository_Create c now newID driver =
     (case driver of
        None \<Rightarrow> (Inl (New ''driver cannot be nil''), c)
      | Some d0 \<Rightarrow>
          let d1 = d0\<lparr>CreatedAt := now, UpdatedAt := now\<rparr>;
              d2 = (if IsZero (ID d1) then d1\<lparr>ID := newID\<rparr> else d1)
          in (case InsertOne c d2 of
                Inl err \<Rightarrow>
                  (if IsDuplicateKeyError err
                   then Inl (New (''driver with plate '' @ Plate d2 @ '' already exists''))
                   else Inl (Wrap ''failed to create driver'' err), c)
              | Inr (insertedID, c') \<Rightarrow> (Inr (Hex insertedID), c')))"

text \<open>The \<open>$set\<close> document of \<open>Update\<close>: eight fields, neither \<open>_id\<close> nor \<open>created_at\<close>.\<close>

definition set_fields :: "Driver \<Rightarrow> Driver \<Rightarrow> Driver" where
  "set_fields driver stored =
     stored\<lparr>FirstName := FirstName driver, LastName := LastName driver, Plate := Plate driver,
            TaxiType := TaxiType driver, CarBrand := CarBrand driver, CarModel := CarModel driver,
            Location := Location driver, UpdatedAt := UpdatedAt driver\<rparr>"

definition repository_Update ::
    "collection \<Rightarrow> time \<Rightarrow> string \<Rightarrow> Driver option \<Rightarrow> error option \<times> collection" where
  "repository_Update c now idHex driver =
     (if idHex = [] then (Some (New ''driver ID cannot be empty''), c)
      else case driver of
        None \<Rightarrow> (Some (New ''driver cannot be nil''), c)
      | Some d0 \<Rightarrow>
          (case ObjectIDFromHex idHex of
             Inl err \<Rightarrow> (Some (Wrap ''invalid driver ID format'' err), c)
           | Inr objectID \<Rightarrow>
               let d = d0\<lparr>UpdatedAt := now\<rparr>
               in (case UpdateOne c objectID (set_fields d) of
                     Inl err \<Rightarrow>
                       (if IsDuplicateKeyError err
                        then Some (New (''driver with plate '' @ Plate d @ '' already exists''))
                        else Some (Wrap ''failed to update driver'' err), c)
                   | Inr (matchedCount, c') \<Rightarrow>
                       if matchedCount = 0
                       then (Some (New (''driver with ID '' @ idHex @ '' not found'')), c')
                       else (None, c'))))"

definition repository_FindByID :: "collection \<Rightarrow> string \<Rightarrow> error + Driver" where
  "repository_FindByID c idHex =
     (if idHex = [] then Inl (New ''driver ID cannot be empty'')
      else case ObjectIDFromHex idHex of
        Inl err \<Rightarrow> Inl (Wrap ''invalid driver ID format'' err)
      | Inr objectID \<Rightarrow>
          (case FindOne c (\<lambda>x. ID x = objectID) of
             Inl err \<Rightarrow>
               if err = mongo_ErrNoDocuments
               then Inl (New (''driver with ID '' @ idHex @ '' not found''))
               else Inl (Wrap ''failed to find driver'' err)
           | Inr driver \<Rightarrow> Inr driver))"

text \<open>The 64-bit wrap-around of Go's \<open>int\<close> arithmetic.\<close>

definition wrap64 :: "int \<Rightarrow> int" where
  "wrap64 x = (x + 2 ^ 63) mod 2 ^ 64 - 2 ^ 63"

definition repository_FindAll :: "collection \<Rightarrow> int \<Rightarrow> int \<Rightarrow> error + (Driver list \<times> int)" where
  "repository_FindAll c page0 pageSize0 =
     (let page = (if page0 < 1 then 1 else page0);
          pageSize1 = (if pageSize0 < 1 then 10 else pageSize0);
          pageSize = (if pageSize1 > 100 then 100 else pageSize1);
          skip = wrap64 (wrap64 (page - 1) * pageSize)
      in case CountDocuments c of
           Inl err \<Rightarrow> Inl (Wrap ''failed to count drivers'' err)
         | Inr totalCount \<Rightarrow>
             (case Find_sorted c skip pageSize of
                Inl err \<Rightarrow> Inl (Wrap ''failed to find drivers'' err)
              | Inr drivers \<Rightarrow> Inr (drivers, totalCount)))"

text \<open>
  \<open>FindNearby\<close>. The \<open>query\<close> map that the source also builds is never sent; the
  pipeline is what runs.
\<close>

definition repository_FindNearby ::
    "geo \<Rightarrow> collection \<Rightarrow> real \<Rightarrow> real \<Rightarrow> real \<Rightarrow> string \<Rightarrow> error + DriverWithDistance list" where
  "repository_FindNearby g c lat lon radiusKm taxiType =
     (if lat < - 90 \<or> lat > 90 then Inl (New ''invalid latitude value'')
      else if lon < - 180 \<or> lon > 180 then Inl (New ''invalid longitude value'')
      else if radiusKm \<le> 0 then Inl (New ''radius must be positive'')
      else
        let center = (lon, lat);
            pipeline = (if taxiType \<noteq> [] \<and> IsValidTaxiType taxiType
                        then [Match_taxi_type taxiType] else []) @ [Limit 50]
        in case Aggregate g c center (radiusKm * 1000) pipeline of
             Inl err \<Rightarrow> Inl (Wrap ''failed to find nearby drivers'' err)
           | Inr results \<Rightarrow>
               Inr (map (\<lambda>result. \<lparr>Driver = fst result, DistanceKm = snd result / 1000\<rparr>) results))"

definition repository_FindByPlate :: "collection \<Rightarrow> string \<Rightarrow> error + Driver" where
  "repository_FindByPlate c plate =
     (if plate = [] then Inl (New ''plate cannot be empty'')
      else case FindOne c (\<lambda>x. Plate x = plate) of
        Inl err \<Rightarrow>
          if err = mongo_ErrNoDocuments then Inl repository_ErrDriverNotFound
          else Inl (Wrap ''failed to find driver by plate'' err)
      | Inr driver \<Rightarrow> Inr driver)"

definition repository_Delete :: "collection \<Rightarrow> string \<Rightarrow> error option \<times> collection" where
  "repository_Delete c idHex =
     (if idHex = [] then (Some (New ''driver ID cannot be empty''), c)
      else case ObjectIDFromHex idHex of
        Inl err \<Rightarrow> (Some (Wrap ''invalid driver ID format'' err), c)
      | Inr objectID \<Rightarrow>
          (case DeleteOne c objectID of
             Inl err \<Rightarrow> (Some (Wrap ''failed to delete driver'' err), c)
           | Inr (deletedCount, c') \<Rightarrow>
               if deletedCount = 0
               then (Some (New (''driver with ID '' @ idHex @ '' not found'')), c')
               else (None, c')))"

section \<open>The driver service (internal/service)\<close>

text \<open>
  What one call of \<open>CreateDriver\<close> reads from its environment: the identifier and
  the two clock readings taken in the service, the clock reading of the repository
  and the identifier the repository would generate for a zero one.
\<close>

record create_env =
  svc_NewObjectID :: ObjectID
  svc_Now_created :: time
  svc_Now_updated :: time
  repo_Now :: time
  repo_NewObjectID :: ObjectID

record PaginatedResponse =
  Data :: "Driver list"
  Page :: int
  PageSize :: int
  TotalCount :: int
  TotalPages :: int

definition CreateDriver ::
    "collection \<Rightarrow> create_env \<Rightarrow> CreateDriverRequest option \<Rightarrow> (error + string) \<times> collection" where
  "CreateDriver c env req =
     (case req of
        None \<Rightarrow> (Inl (New ''request cannot be nil''), c)
      | Some r \<Rightarrow>
          (case CreateDriverRequest_Validate r of
             Some err \<Rightarrow> (Inl (Wrap ''validation failed'' err), c)
           | None \<Rightarrow>
               let driver = \<lparr>ID = svc_NewObjectID env, FirstName = cr_FirstName r,
                             LastName = cr_LastName r, Plate = cr_Plate r,
                             TaxiType = cr_TaxiType r, CarBrand = cr_CarBrand r,
                             CarModel = cr_CarModel r,
                             Location = \<lparr>Lat = cr_Lat r, Lon = cr_Lon r\<rparr>,
                             CreatedAt = svc_Now_created env, UpdatedAt = svc_Now_updated env\<rparr>
               in (case repository_Create c (repo_Now env) (repo_NewObjectID env) (Some driver) of
                     (Inl err, c') \<Rightarrow> (Inl (Wrap ''failed to create driver'' err), c')
                   | (Inr driverID, c') \<Rightarrow> (Inr driverID, c'))))"

text \<open>The field-by-field merge of \<open>UpdateDriver\<close>, lines 97 to 117.\<close>

definition merge_request :: "UpdateDriverRequest \<Rightarrow> Driver \<Rightarrow> Driver" where
  "merge_request r existingDriver =
     (let d1 = (case ur_FirstName r of Some v \<Rightarrow> existingDriver\<lparr>FirstName := v\<rparr> | None \<Rightarrow> existingDriver);
          d2 = (case ur_LastName r of Some v \<Rightarrow> d1\<lparr>LastName := v\<rparr> | None \<Rightarrow> d1);
          d3 = (case ur_TaxiType r of Some v \<Rightarrow> d2\<lparr>TaxiType := v\<rparr> | None \<Rightarrow> d2);
          d4 = (case ur_CarBrand r of Some v \<Rightarrow> d3\<lparr>CarBrand := v\<rparr> | None \<Rightarrow> d3);
          d5 = (case ur_CarModel r of Some v \<Rightarrow> d4\<lparr>CarModel := v\<rparr> | None \<Rightarrow> d4)
      in case (ur_Lat r, ur_Lon r) of
           (Some la, Some lo) \<Rightarrow> d5\<lparr>Location := \<lparr>Lat = la, Lon = lo\<rparr>\<rparr>
         | _ \<Rightarrow> d5)"

definition UpdateDriver ::
    "collection \<Rightarrow> time \<Rightarrow> time \<Rightarrow> string \<Rightarrow> UpdateDriverRequest option \<Rightarrow> error option \<times> collection" where
  "UpdateDriver c svc_now repo_now idHex req =
     (if idHex = [] then (Some (New ''driver ID cannot be empty''), c)
      else case req of
        None \<Rightarrow> (Some (New ''request cannot be nil''), c)
      | Some r \<Rightarrow>
          (case UpdateDriverRequest_Validate r of
             Some err \<Rightarrow> (Some (Wrap ''validation failed'' err), c)
           | None \<Rightarrow>
               (case repository_FindByID c idHex of
                  Inl err \<Rightarrow>
                    if errors_Is err repository_ErrDriverNotFound
                    then (Some (New (''driver with ID '' @ idHex @ '' not found'')), c)
                    else (Some (Wrap ''failed to find driver'' err), c)
                | Inr existingDriver \<Rightarrow>
                    let merged = (merge_request r existingDriver)\<lparr>UpdatedAt := svc_now\<rparr>
                    in (case repository_Update c repo_now idHex (Some merged) of
                          (Some err, c') \<Rightarrow> (Some (Wrap ''failed to update driver'' err), c')
                        | (None, c') \<Rightarrow> (None, c')))))"

definition GetDriverByID :: "collection \<Rightarrow> string \<Rightarrow> error + Driver" where
  "GetDriverByID c idHex =
     (if idHex = [] then Inl (New ''driver ID cannot be empty'')
      else case repository_FindByID c idHex of
        Inl err \<Rightarrow>
          if errors_Is err repository_ErrDriverNotFound
          then Inl (New (''driver with ID '' @ idHex @ '' not found''))
          else Inl (Wrap ''failed to get driver'' err)
      | Inr driver \<Rightarrow> Inr driver)"

text \<open>
  \<open>ListDrivers\<close>. The page count is \<open>int(math.Ceil(float64(totalCount) /
  float64(pageSize)))\<close>; with a page size of at most 100 the float quotient rounds
  to the same ceiling as the exact one for every count below \<open>2^53\<close>.
\<close>

definition ListDrivers :: "collection \<Rightarrow> int \<Rightarrow> int \<Rightarrow> error + PaginatedResponse" where
  "ListDrivers c page0 pageSize0 =
     (let page = (if page0 < 1 then 1 else page0);
          pageSize1 = (if pageSize0 < 1 then 10 else pageSize0);
          pageSize = (if pageSize1 > 100 then 100 else pageSize1)
      in case repository_FindAll c page pageSize of
           Inl err \<Rightarrow> Inl (Wrap ''failed to list drivers'' err)
         | Inr (drivers, totalCount) \<Rightarrow>
             let totalPages = \<lceil>real_of_int totalCount / real_of_int pageSize\<rceil>
             in Inr \<lparr>Data = drivers, Page = page, PageSize = pageSize,
                     TotalCount = totalCount, TotalPages = totalPages\<rparr>)"

definition FindNearbyDrivers ::
    "geo \<Rightarrow> collection \<Rightarrow> real \<Rightarrow> real \<Rightarrow> string \<Rightarrow> error + DriverWithDistance list" where
  "FindNearbyDrivers g c lat lon taxiType =
     (if lat < - 90 \<or> lat > 90
      then Inl (New ''invalid latitude: must be between -90 and 90'')
      else if lon < - 180 \<or> lon > 180
      then Inl (New ''invalid longitude: must be between -180 and 180'')
      else if taxiType \<noteq> [] \<and> \<not> IsValidTaxiType taxiType
      then Inl (New (''invalid taxi type: '' @ taxiType @ '' (must be one of: sari, turkuaz, siyah)''))
      else
        let radiusKm = 5
        in case repository_FindNearby g c lat lon radiusKm taxiType of
             Inl err \<Rightarrow> Inl (Wrap ''failed to find nearby drivers'' err)
           | Inr drivers \<Rightarrow> Inr drivers)"

definition UpdateDriverLocation ::
    "collection \<Rightarrow> time \<Rightarrow> time \<Rightarrow> string \<Rightarrow> UpdateLocationRequest option \<Rightarrow> error option \<times> collection" where
  "UpdateDriverLocation c svc_now repo_now idHex req =
     (if idHex = [] then (Some (New ''driver ID cannot be empty''), c)
      else case req of
        None \<Rightarrow> (Some (New ''request cannot be nil''), c)
      | Some r \<Rightarrow>
          (case UpdateLocationRequest_Validate r of
             Some err \<Rightarrow> (Some (Wrap ''validation failed'' err), c)
           | None \<Rightarrow>
               (case repository_FindByID c idHex of
                  Inl err \<Rightarrow>
                    if errors_Is err repository_ErrDriverNotFound
                    then (Some (New (''driver with ID '' @ idHex @ '' not found'')), c)
                    else (Some (Wrap ''failed to find driver'' err), c)
                | Inr existingDriver \<Rightarrow>
                    let moved = existingDriver\<lparr>Location := \<lparr>Lat = lr_Lat r, Lon = lr_Lon r\<rparr>,
                                                UpdatedAt := svc_now\<rparr>
                    in (case repository_Update c repo_now idHex (Some moved) of
                          (Some err, c') \<Rightarrow> (Some (Wrap ''failed to update driver location'' err), c')
                        | (None, c') \<Rightarrow> (None, c')))))"

definition DeleteDriver :: "collection \<Rightarrow> string \<Rightarrow> error option \<times> collection" where
  "DeleteDriver c idHex =
     (if idHex = [] then (Some (New ''driver ID cannot be empty''), c)
      else case repository_FindByID c idHex of
        Inl err \<Rightarrow>
          if errors_Is err repository_ErrDriverNotFound
          then (Some (New (''driver with ID '' @ idHex @ '' not found'')), c)
          else (Some (Wrap ''failed to find driver'' err), c)
      | Inr existing \<Rightarrow>
          (case repository_Delete c idHex of
             (Some err, c') \<Rightarrow> (Some (Wrap ''failed to delete driver'' err), c')
           | (None, c') \<Rightarrow> (None, c')))"

definition GetDriverByPlate :: "collection \<Rightarrow> string \<Rightarrow> error + Driver" where
  "GetDriverByPlate c plate =
     (if plate = [] then Inl (New ''plate cannot be empty'')
      else case repository_FindByPlate c plate of
        Inl err \<Rightarrow>
          if errors_Is err repository_ErrDriverNotFound
          then Inl (New (''driver with plate '' @ plate @ '' not found''))
          else Inl (Wrap ''failed to get driver by plate'' err)
      | Inr driver \<Rightarrow> Inr driver)"

section \<open>The handlers' classification of service errors (internal/handlers)\<close>

text \<open>
  Of each handler, the HTTP status it answers with once the request is parsed: the
  only place in the sources where an error is assigned to a class, by \<open>errors.Is\<close>
  against a sentinel of the \<open>service\<close> package.
\<close>

definition isValidObjectID :: "string \<Rightarrow> bool" where
  "isValidObjectID idHex = (case ObjectIDFromHex idHex of Inl err \<Rightarrow> False | Inr oid \<Rightarrow> True)"

definition handler_CreateDriver :: "collection \<Rightarrow> create_env \<Rightarrow> CreateDriverRequest \<Rightarrow> nat \<times> collection" where
  "handler_CreateDriver c env req =
     (case CreateDriverRequest_Validate req of
        Some err \<Rightarrow> (400, c)
      | None \<Rightarrow>
          (case CreateDriver c env (Some req) of
             (Inl err, c') \<Rightarrow>
               if errors_Is err service_ErrDriverAlreadyExists then (409, c') else (500, c')
           | (Inr driverID, c') \<Rightarrow> (201, c')))"

definition handler_DeleteDriver :: "collection \<Rightarrow> string \<Rightarrow> nat \<times> collection" where
  "handler_DeleteDriver c idHex =
     (if \<not> isValidObjectID idHex then (400, c)
      else case DeleteDriver c idHex of
        (Some err, c') \<Rightarrow> if errors_Is err service_ErrDriverNotFound then (404, c') else (500, c')
      | (None, c') \<Rightarrow> (204, c'))"

definition handler_FindNearbyDrivers :: "geo \<Rightarrow> collection \<Rightarrow> real \<Rightarrow> real \<Rightarrow> string \<Rightarrow> nat" where
  "handler_FindNearbyDrivers g c lat lon taxiType =
     (case FindNearbyDrivers g c lat lon taxiType of
        Inl err \<Rightarrow> if errors_Is err service_ErrInvalidLocation then 400 else 500
      | Inr drivers \<Rightarrow> 200)"

section \<open>Example data\<close>

text \<open>
  A store of three drivers and a stand-in for the server's distance (in meters,
  zero between a location and its own coordinates), for running the operations
  on concrete input: the second driver is at (41, 29), the first 222 m away, the
  third more than 100 km away.
\<close>

definition example_distance :: geo where
  "example_distance loc p = (\<bar>Lat loc - snd p\<bar> + \<bar>Lon loc - fst p\<bar>) * 111000"

definition example_drivers :: collection where
  "example_drivers =
     [\<lparr>ID = 1, FirstName = ''Ayse'', LastName = ''Kaya'', Plate = ''34ABC123'',
       TaxiType = ''sari'', CarBrand = ''Fiat'', CarModel = ''Egea'',
       Location = \<lparr>Lat = 41.001, Lon = 29.001\<rparr>, CreatedAt = 100, UpdatedAt = 100\<rparr>,
      \<lparr>ID = 2, FirstName = ''Mehmet'', LastName = ''Demir'', Plate = ''06XYZ456'',
       TaxiType = ''turkuaz'', CarBrand = ''Renault'', CarModel = ''Clio'',
       Location = \<lparr>Lat = 41, Lon = 29\<rparr>, CreatedAt = 200, UpdatedAt = 200\<rparr>,
      \<lparr>ID = 3, FirstName = ''Zeynep'', LastName = ''Arslan'', Plate = ''35KL789'',
       TaxiType = ''siyah'', CarBrand = ''Toyota'', CarModel = ''Corolla'',
       Location = \<lparr>Lat = 42, Lon = 29\<rparr>, CreatedAt = 300, UpdatedAt = 300\<rparr>]"

text \<open>A create request, the environment of one create call, and a partial update.\<close>

definition example_request :: CreateDriverRequest where
  "example_request =
     \<lparr>cr_FirstName = ''Elif'', cr_LastName = ''Yilmaz'', cr_Plate = ''16 DEF 42'',
      cr_TaxiType = ''sari'', cr_CarBrand = ''Hyundai'', cr_CarModel = ''i20'',
      cr_Lat = 40.2, cr_Lon = 29.1\<rparr>"

definition example_env :: create_env where
  "example_env =
     \<lparr>svc_NewObjectID = 7, svc_Now_created = 400, svc_Now_updated = 401,
      repo_Now = 402, repo_NewObjectID = 8\<rparr>"

definition example_update :: UpdateDriverRequest where
  "example_update =
     \<lparr>ur_FirstName = None, ur_LastName = None, ur_TaxiType = Some ''sari'',
      ur_CarBrand = None, ur_CarModel = None, ur_Lat = Some 40, ur_Lon = None\<rparr>"

section \<open>Validation of coordinates\<close>

lemma validate_location_nonzero_in_range:
  assumes "lr_Lat r \<noteq> 0" "lr_Lon r \<noteq> 0"
    and "- 90 \<le> lr_Lat r" "lr_Lat r \<le> 90" "- 180 \<le> lr_Lon r" "lr_Lon r \<le> 180"
  shows "UpdateLocationRequest_Validate r = None"
  using assms by (simp add: UpdateLocationRequest_Validate_def validation_result_def)

lemma validate_create_nonzero_in_range:
  assumes others: "CreateDriverRequest_Validate (r\<lparr>cr_Lat := 1, cr_Lon := 1\<rparr>) = None"
    and "lat \<noteq> 0" "lon \<noteq> 0" "- 90 \<le> lat" "lat \<le> 90" "- 180 \<le> lon" "lon \<le> 180"
  shows "CreateDriverRequest_Validate (r\<lparr>cr_Lat := lat, cr_Lon := lon\<rparr>) = None"
  using assms
  by (simp add: CreateDriverRequest_Validate_def validation_result_def split: if_splits)

text \<open>
  C1. Claimed: every coordinate pair inside the ranges, latitude 0 and longitude 0
  included, passes the validation of a create request and of a location-only
  update. The \<open>required\<close> tag on the two \<open>float64\<close> fields rejects the value 0:
  a create request that is valid in every other field, and a location update, both
  fail at latitude 0 (the equator) and at longitude 0.
\<close>

theorem C1_zero_coordinate_rejected:
  "CreateDriverRequest_Validate
     \<lparr>cr_FirstName = ''Ayse'', cr_LastName = ''Kaya'', cr_Plate = ''34 ABC 123'',
      cr_TaxiType = ''sari'', cr_CarBrand = ''Fiat'', cr_CarModel = ''Egea'',
      cr_Lat = 0, cr_Lon = 29\<rparr>
     = Some (ValidationErrors [FieldError ''Lat'' Required])
   \<and> UpdateLocationRequest_Validate \<lparr>lr_Lat = 41, lr_Lon = 0\<rparr>
     = Some (ValidationErrors [FieldError ''Lon'' Required])"
  by (simp add: CreateDriverRequest_Validate_def UpdateLocationRequest_Validate_def
      validation_result_def RuneCountInString_def is_continuation_byte_def
      TurkishLicensePlateValidator_def is_space_def is_digit_def is_letter_def)

section \<open>Identifiers: the hexadecimal form reads back\<close>

lemma hex_value_hex_digit: "n < 16 \<Longrightarrow> hex_value (hex_digit n) = Some n"
proof -
  assume n: "n < 16"
  have a: "(48 + n) mod 256 = 48 + n" "(87 + n) mod 256 = 87 + n"
    using n by simp_all
  show ?thesis
  proof (cases "n < 10")
    case True
    then show ?thesis
      unfolding hex_value_def hex_digit_def Let_def of_char_of a by simp
  next
    case False
    with n show ?thesis
      unfolding hex_value_def hex_digit_def Let_def of_char_of a by simp
  qed
qed

lemma from_hex_append:
  "from_hex acc (xs @ ys) = (case from_hex acc xs of None \<Rightarrow> None | Some a \<Rightarrow> from_hex a ys)"
  by (induction xs arbitrary: acc) (auto split: option.splits)

lemma from_hex_to_hex: "from_hex acc (to_hex k n) = Some (acc * 16 ^ k + n mod 16 ^ k)"
proof (induction k arbitrary: n acc)
  case 0
  then show ?case by simp
next
  case (Suc k)
  have "n mod 16 ^ Suc k = (n div 16 mod 16 ^ k) * 16 + n mod 16"
    by (simp add: mod_mult2_eq)
  then show ?case
    by (simp add: from_hex_append Suc hex_value_hex_digit algebra_simps)
qed

lemma length_to_hex: "length (to_hex k n) = k"
  by (induction k arbitrary: n) auto

lemma ObjectIDFromHex_Hex: "ObjectIDFromHex (Hex oid) = Inr oid"
proof -
  have "unat oid < 2 ^ 96"
    using unsigned_less [of oid] by simp
  then have "unat oid mod 16 ^ 24 = unat oid"
    by simp
  then show ?thesis
    by (simp add: ObjectIDFromHex_def Hex_def length_to_hex from_hex_to_hex)
qed

lemma Hex_nonempty: "Hex oid \<noteq> []"
  using length_to_hex [of 24 "unat oid"] by (auto simp: Hex_def)

section \<open>Create, then read back\<close>

lemma find_append_last:
  "\<not> list_ex P xs \<Longrightarrow> P y \<Longrightarrow> find P (xs @ [y]) = Some y"
  by (induction xs) auto

text \<open>
  C2. A create request that passes validation, with a plate that no stored driver
  has and an identifier that is new to the store, makes \<open>CreateDriver\<close> succeed;
  \<open>GetDriverByID\<close> on the returned identifier then returns a driver with the
  request's names, plate, taxi category, car brand, car model and location, whose
  creation and update times are both the one clock reading that the repository
  took (so they are set, and equal). The identifier is the one the service
  generated, or the repository's when that one is the zero identifier.
\<close>

theorem C2_create_then_get:
  assumes valid: "CreateDriverRequest_Validate r = None"
    and plate_free: "\<not> list_ex (\<lambda>x. Plate x = cr_Plate r) c"
    and id_free: "\<not> list_ex (\<lambda>x. ID x =
           (if IsZero (svc_NewObjectID env) then repo_NewObjectID env else svc_NewObjectID env)) c"
  shows "\<exists>idHex c' d.
           CreateDriver c env (Some r) = (Inr idHex, c') \<and>
           GetDriverByID c' idHex = Inr d \<and>
           FirstName d = cr_FirstName r \<and> LastName d = cr_LastName r \<and>
           Plate d = cr_Plate r \<and> TaxiType d = cr_TaxiType r \<and>
           CarBrand d = cr_CarBrand r \<and> CarModel d = cr_CarModel r \<and>
           Location d = \<lparr>Lat = cr_Lat r, Lon = cr_Lon r\<rparr> \<and>
           CreatedAt d = repo_Now env \<and> UpdatedAt d = repo_Now env"
proof -
  define oid where
    "oid = (if IsZero (svc_NewObjectID env) then repo_NewObjectID env else svc_NewObjectID env)"
  define d where
    "d = \<lparr>ID = oid, FirstName = cr_FirstName r, LastName = cr_LastName r, Plate = cr_Plate r,
          TaxiType = cr_TaxiType r, CarBrand = cr_CarBrand r, CarModel = cr_CarModel r,
          Location = \<lparr>Lat = cr_Lat r, Lon = cr_Lon r\<rparr>,
          CreatedAt = repo_Now env, UpdatedAt = repo_Now env\<rparr>"
  have free: "\<not> list_ex (\<lambda>x. ID x = ID d \<or> Plate x = Plate d) c"
    using plate_free id_free by (auto simp: list_ex_iff d_def oid_def)
  have ins: "InsertOne c d = Inr (oid, c @ [d])"
    using free by (simp add: InsertOne_def d_def)
  have repo: "repository_Create c (repo_Now env) (repo_NewObjectID env)
        (Some \<lparr>ID = svc_NewObjectID env, FirstName = cr_FirstName r, LastName = cr_LastName r,
               Plate = cr_Plate r, TaxiType = cr_TaxiType r, CarBrand = cr_CarBrand r,
               CarModel = cr_CarModel r, Location = \<lparr>Lat = cr_Lat r, Lon = cr_Lon r\<rparr>,
               CreatedAt = svc_Now_created env, UpdatedAt = svc_Now_updated env\<rparr>)
      = (Inr (Hex oid), c @ [d])"
  proof (cases "IsZero (svc_NewObjectID env)")
    case True
    then show ?thesis
      using ins by (simp add: repository_Create_def d_def oid_def)
  next
    case False
    then show ?thesis
      using ins by (simp add: repository_Create_def d_def oid_def)
  qed
  have created: "CreateDriver c env (Some r) = (Inr (Hex oid), c @ [d])"
    by (simp add: CreateDriver_def valid repo)
  have "\<not> list_ex (\<lambda>x. ID x = oid) c"
    using id_free by (simp add: oid_def)
  then have "find (\<lambda>x. ID x = oid) (c @ [d]) = Some d"
    by (rule find_append_last) (simp add: d_def)
  then have got: "GetDriverByID (c @ [d]) (Hex oid) = Inr d"
    by (simp add: GetDriverByID_def repository_FindByID_def Hex_nonempty ObjectIDFromHex_Hex FindOne_def)
  show ?thesis
    using created got by (simp add: d_def)
qed

text \<open>The theorem at the example request, on the example store.\<close>

theorem C2_create_then_get_witness:
  "CreateDriverRequest_Validate example_request = None \<and>
   \<not> list_ex (\<lambda>x. Plate x = cr_Plate example_request) example_drivers \<and>
   \<not> list_ex (\<lambda>x. ID x =
        (if IsZero (svc_NewObjectID example_env) then repo_NewObjectID example_env
         else svc_NewObjectID example_env)) example_drivers \<and>
   (\<exists>idHex c' d.
      CreateDriver example_drivers example_env (Some example_request) = (Inr idHex, c') \<and>
      GetDriverByID c' idHex = Inr d \<and>
      FirstName d = cr_FirstName example_request \<and> LastName d = cr_LastName example_request \<and>
      Plate d = cr_Plate example_request \<and> TaxiType d = cr_TaxiType example_request \<and>
      CarBrand d = cr_CarBrand example_request \<and> CarModel d = cr_CarModel example_request \<and>
      Location d = \<lparr>Lat = cr_Lat example_request, Lon = cr_Lon example_request\<rparr> \<and>
      CreatedAt d = repo_Now example_env \<and> UpdatedAt d = repo_Now example_env)"
proof -
  have valid: "CreateDriverRequest_Validate example_request = None"
    by (simp add: example_request_def CreateDriverRequest_Validate_def validation_result_def
        RuneCountInString_def is_continuation_byte_def TurkishLicensePlateValidator_def
        is_space_def is_digit_def is_letter_def)
  have plate_free: "\<not> list_ex (\<lambda>x. Plate x = cr_Plate example_request) example_drivers"
    by (simp add: example_request_def example_drivers_def)
  have id_free: "\<not> list_ex (\<lambda>x. ID x =
        (if IsZero (svc_NewObjectID example_env) then repo_NewObjectID example_env
         else svc_NewObjectID example_env)) example_drivers"
    by (simp add: example_env_def example_drivers_def IsZero_def NilObjectID_def)
  show ?thesis
    by (intro conjI valid plate_free id_free
        C2_create_then_get [OF valid plate_free id_free])
qed

section \<open>Partial update\<close>

lemma find_update_first:
  "find P xs = Some d \<Longrightarrow> P (f d) \<Longrightarrow> find P (update_first P f xs) = Some (f d)"
  by (induction xs) (auto split: if_splits)

lemma filter_update_first:
  "(\<And>x. P x \<Longrightarrow> P (f x)) \<Longrightarrow>
     filter (\<lambda>x. \<not> P x) (update_first P f xs) = filter (\<lambda>x. \<not> P x) xs"
  by (induction xs) auto

lemma length_update_first: "length (update_first P f xs) = length xs"
  by (induction xs) auto

lemma find_in_set: "find P xs = Some d \<Longrightarrow> d \<in> set xs \<and> P d"
  by (induction xs) (auto split: if_splits)

lemma unique_plate_no_clash:
  assumes "distinct (map Plate c)" and "find (\<lambda>x. ID x = oid) c = Some d"
  shows "\<not> list_ex (\<lambda>x. ID x \<noteq> oid \<and> Plate x = Plate d) c"
proof -
  have d: "d \<in> set c" "ID d = oid"
    using find_in_set [OF assms(2)] by simp_all
  have "inj_on Plate (set c)"
    using assms(1) by (simp add: distinct_map)
  then have "x = d" if "x \<in> set c" "Plate x = Plate d" for x
    using that d(1) by (auto dest: inj_onD)
  then show ?thesis
    using d(2) by (auto simp: list_ex_iff)
qed

lemma merge_request_frame:
  "ID (merge_request r d) = ID d \<and> Plate (merge_request r d) = Plate d \<and>
   CreatedAt (merge_request r d) = CreatedAt d \<and> UpdatedAt (merge_request r d) = UpdatedAt d"
  by (simp add: merge_request_def Let_def split: option.splits)

lemma merge_request_fields:
  "FirstName (merge_request r d) = (case ur_FirstName r of Some v \<Rightarrow> v | None \<Rightarrow> FirstName d) \<and>
   LastName (merge_request r d) = (case ur_LastName r of Some v \<Rightarrow> v | None \<Rightarrow> LastName d) \<and>
   TaxiType (merge_request r d) = (case ur_TaxiType r of Some v \<Rightarrow> v | None \<Rightarrow> TaxiType d) \<and>
   CarBrand (merge_request r d) = (case ur_CarBrand r of Some v \<Rightarrow> v | None \<Rightarrow> CarBrand d) \<and>
   CarModel (merge_request r d) = (case ur_CarModel r of Some v \<Rightarrow> v | None \<Rightarrow> CarModel d) \<and>
   Location (merge_request r d) =
     (case (ur_Lat r, ur_Lon r) of
        (Some la, Some lo) \<Rightarrow> \<lparr>Lat = la, Lon = lo\<rparr>
      | _ \<Rightarrow> Location d)"
  by (simp add: merge_request_def Let_def split: option.splits)

lemma set_fields_merged:
  "set_fields ((merge_request r d)\<lparr>UpdatedAt := t\<rparr>) d = (merge_request r d)\<lparr>UpdatedAt := t\<rparr>"
  by (simp add: set_fields_def merge_request_def Let_def split: option.splits)

text \<open>
  C3. For a stored driver, a valid partial update and a store whose plates are
  unique, \<open>UpdateDriver\<close> succeeds and the driver read back afterwards has: the
  same identifier, plate and creation time; each of first name, last name, taxi
  category, car brand and car model equal to the request's value when the field is
  present and to the stored value when it is absent; the location replaced only
  when both latitude and longitude are present; the update time set to the clock
  reading of the write, whatever fields are present. No other document changes.
\<close>

theorem C3_update_merges_present_fields:
  assumes stored: "find (\<lambda>x. ID x = oid) c = Some d"
    and valid: "UpdateDriverRequest_Validate r = None"
    and plates: "distinct (map Plate c)"
  shows "\<exists>c' d'.
           UpdateDriver c svc_now repo_now (Hex oid) (Some r) = (None, c') \<and>
           GetDriverByID c' (Hex oid) = Inr d' \<and>
           ID d' = ID d \<and> Plate d' = Plate d \<and> CreatedAt d' = CreatedAt d \<and>
           FirstName d' = (case ur_FirstName r of Some v \<Rightarrow> v | None \<Rightarrow> FirstName d) \<and>
           LastName d' = (case ur_LastName r of Some v \<Rightarrow> v | None \<Rightarrow> LastName d) \<and>
           TaxiType d' = (case ur_TaxiType r of Some v \<Rightarrow> v | None \<Rightarrow> TaxiType d) \<and>
           CarBrand d' = (case ur_CarBrand r of Some v \<Rightarrow> v | None \<Rightarrow> CarBrand d) \<and>
           CarModel d' = (case ur_CarModel r of Some v \<Rightarrow> v | None \<Rightarrow> CarModel d) \<and>
           Location d' =
             (case (ur_Lat r, ur_Lon r) of
                (Some la, Some lo) \<Rightarrow> \<lparr>Lat = la, Lon = lo\<rparr>
              | _ \<Rightarrow> Location d) \<and>
           UpdatedAt d' = repo_now \<and>
           length c' = length c \<and>
           filter (\<lambda>x. ID x \<noteq> oid) c' = filter (\<lambda>x. ID x \<noteq> oid) c"
proof -
  define m where "m = (merge_request r d)\<lparr>UpdatedAt := repo_now\<rparr>"
  define c' where "c' = update_first (\<lambda>x. ID x = oid) (set_fields m) c"
  have d: "d \<in> set c" "ID d = oid"
    using find_in_set [OF stored] by simp_all
  have m_id: "ID m = oid" and m_plate: "Plate m = Plate d"
    using d(2) by (simp_all add: m_def merge_request_frame)
  have sf: "set_fields m d = m"
    by (simp add: m_def set_fields_merged)
  have sf_id: "ID (set_fields m x) = ID x" for x
    by (simp add: set_fields_def)
  have found: "repository_FindByID c (Hex oid) = Inr d"
    by (simp add: repository_FindByID_def Hex_nonempty ObjectIDFromHex_Hex FindOne_def stored)
  have no_clash: "\<not> list_ex (\<lambda>x. ID x \<noteq> oid \<and> Plate x = Plate (set_fields m d)) c"
    using unique_plate_no_clash [OF plates stored] by (simp add: sf m_plate)
  have upd: "UpdateOne c oid (set_fields m) = Inr (1, c')"
    using no_clash by (simp add: UpdateOne_def stored c'_def)
  have m_eq: "(merge_request r d)\<lparr>UpdatedAt := svc_now, UpdatedAt := repo_now\<rparr> = m"
    by (simp add: m_def)
  have repo: "repository_Update c repo_now (Hex oid) (Some ((merge_request r d)\<lparr>UpdatedAt := svc_now\<rparr>))
      = (None, c')"
    by (simp add: repository_Update_def Hex_nonempty ObjectIDFromHex_Hex m_eq upd)
  have updated: "UpdateDriver c svc_now repo_now (Hex oid) (Some r) = (None, c')"
    by (simp add: UpdateDriver_def Hex_nonempty valid found repo)
  have "find (\<lambda>x. ID x = oid) c' = Some (set_fields m d)"
    unfolding c'_def using stored by (rule find_update_first) (simp add: sf_id d(2))
  then have got: "GetDriverByID c' (Hex oid) = Inr m"
    by (simp add: GetDriverByID_def repository_FindByID_def Hex_nonempty ObjectIDFromHex_Hex
        FindOne_def sf)
  have len: "length c' = length c"
    by (simp add: c'_def length_update_first)
  have others: "filter (\<lambda>x. ID x \<noteq> oid) c' = filter (\<lambda>x. ID x \<noteq> oid) c"
    unfolding c'_def by (rule filter_update_first) (simp add: sf_id)
  have fields: "ID m = ID d \<and> Plate m = Plate d \<and> CreatedAt m = CreatedAt d \<and>
      FirstName m = (case ur_FirstName r of Some v \<Rightarrow> v | None \<Rightarrow> FirstName d) \<and>
      LastName m = (case ur_LastName r of Some v \<Rightarrow> v | None \<Rightarrow> LastName d) \<and>
      TaxiType m = (case ur_TaxiType r of Some v \<Rightarrow> v | None \<Rightarrow> TaxiType d) \<and>
      CarBrand m = (case ur_CarBrand r of Some v \<Rightarrow> v | None \<Rightarrow> CarBrand d) \<and>
      CarModel m = (case ur_CarModel r of Some v \<Rightarrow> v | None \<Rightarrow> CarModel d) \<and>
      Location m =
        (case (ur_Lat r, ur_Lon r) of
           (Some la, Some lo) \<Rightarrow> \<lparr>Lat = la, Lon = lo\<rparr>
         | _ \<Rightarrow> Location d) \<and>
      UpdatedAt m = repo_now"
    using merge_request_frame [of r d] merge_request_fields [of r d] by (simp add: m_def)
  show ?thesis
    using updated got fields len others by blast
qed

text \<open>
  The theorem at the second driver of the example store and a request that carries
  a taxi category and a latitude without a longitude: the category changes, the
  location stays.
\<close>

theorem C3_update_merges_present_fields_witness:
  "find (\<lambda>x. ID x = 2) example_drivers = Some (example_drivers ! 1) \<and>
   UpdateDriverRequest_Validate example_update = None \<and>
   distinct (map Plate example_drivers) \<and>
   (\<exists>c' d'.
      UpdateDriver example_drivers 500 501 (Hex 2) (Some example_update) = (None, c') \<and>
      GetDriverByID c' (Hex 2) = Inr d' \<and>
      ID d' = 2 \<and> Plate d' = ''06XYZ456'' \<and> CreatedAt d' = 200 \<and>
      FirstName d' = ''Mehmet'' \<and> LastName d' = ''Demir'' \<and> TaxiType d' = ''sari'' \<and>
      CarBrand d' = ''Renault'' \<and> CarModel d' = ''Clio'' \<and>
      Location d' = \<lparr>Lat = 41, Lon = 29\<rparr> \<and> UpdatedAt d' = 501 \<and>
      length c' = length example_drivers \<and>
      filter (\<lambda>x. ID x \<noteq> 2) c' = filter (\<lambda>x. ID x \<noteq> 2) example_drivers)"
proof -
  have stored: "find (\<lambda>x. ID x = 2) example_drivers = Some (example_drivers ! 1)"
    by (simp add: example_drivers_def)
  have valid: "UpdateDriverRequest_Validate example_update = None"
    by (simp add: example_update_def UpdateDriverRequest_Validate_def validation_result_def)
  have plates: "distinct (map Plate example_drivers)"
    by (simp add: example_drivers_def)
  show ?thesis
    using stored valid plates
      C3_update_merges_present_fields [OF stored valid plates, of 500 501]
    by (simp add: example_update_def example_drivers_def)
qed

section \<open>Errors and their classes\<close>

lemma validate_example_requests:
  "CreateDriverRequest_Validate \<lparr>cr_FirstName = ''Ayse'', cr_LastName = ''Kaya'', cr_Plate = ''34 ABC 123'',
        cr_TaxiType = ''sari'', cr_CarBrand = ''Fiat'', cr_CarModel = ''Egea'',
        cr_Lat = 41, cr_Lon = 29\<rparr> = None"
  "CreateDriverRequest_Validate \<lparr>cr_FirstName = ''Mehmet'', cr_LastName = ''Demir'', cr_Plate = ''34 ABC 123'',
        cr_TaxiType = ''siyah'', cr_CarBrand = ''Renault'', cr_CarModel = ''Clio'',
        cr_Lat = 40, cr_Lon = 30\<rparr> = None"
  by (simp_all add: CreateDriverRequest_Validate_def validation_result_def RuneCountInString_def
      is_continuation_byte_def TurkishLicensePlateValidator_def is_space_def is_digit_def
      is_letter_def)

lemma Hex_7: "Hex 7 = ''000000000000000000000007''"
  by code_simp

lemma ObjectIDFromHex_8: "ObjectIDFromHex ''000000000000000000000008'' = Inr 8"
  by code_simp

subsection \<open>A second driver with a stored plate\<close>

lemma CreateDriver_duplicate_plate:
  assumes "CreateDriverRequest_Validate r = None" and "list_ex (\<lambda>x. Plate x = cr_Plate r) c"
  shows "CreateDriver c env (Some r) =
           (Inl (Wrap ''failed to create driver''
                  (New (''driver with plate '' @ cr_Plate r @ '' already exists''))), c)"
proof -
  have "list_ex (\<lambda>x. ID x = oid \<or> Plate x = cr_Plate r) c" for oid
    using assms(2) by (auto simp: list_ex_iff)
  then show ?thesis
    by (simp add: CreateDriver_def assms(1) repository_Create_def InsertOne_def
        IsDuplicateKeyError_def Let_def)
qed

text \<open>
  C4. Claimed: the second of two create requests with the same plate fails with an
  error classified as Conflict, the store keeps only the first driver and the
  duplicate is never counted. The store part holds: the second call fails and
  leaves the one-driver store as it was. The class does not: the repository
  answers the duplicate key with a fresh \<open>fmt.Errorf\<close> error that wraps no
  sentinel, so \<open>errors.Is\<close> against \<open>ErrDriverAlreadyExists\<close> is false and the
  handler, which tests exactly that, answers 500 instead of 409.
\<close>

theorem C4_duplicate_plate_is_not_a_conflict:
  "CreateDriver [] \<lparr>svc_NewObjectID = 7, svc_Now_created = 100, svc_Now_updated = 101,
        repo_Now = 102, repo_NewObjectID = 8\<rparr> (Some \<lparr>cr_FirstName = ''Ayse'', cr_LastName = ''Kaya'', cr_Plate = ''34 ABC 123'',
        cr_TaxiType = ''sari'', cr_CarBrand = ''Fiat'', cr_CarModel = ''Egea'',
        cr_Lat = 41, cr_Lon = 29\<rparr>) = (Inr ''000000000000000000000007'', [\<lparr>ID = 7, FirstName = ''Ayse'', LastName = ''Kaya'', Plate = ''34 ABC 123'',
        TaxiType = ''sari'', CarBrand = ''Fiat'', CarModel = ''Egea'',
        Location = \<lparr>Lat = 41, Lon = 29\<rparr>, CreatedAt = 102, UpdatedAt = 102\<rparr>]) \<and>
   CreateDriver [\<lparr>ID = 7, FirstName = ''Ayse'', LastName = ''Kaya'', Plate = ''34 ABC 123'',
        TaxiType = ''sari'', CarBrand = ''Fiat'', CarModel = ''Egea'',
        Location = \<lparr>Lat = 41, Lon = 29\<rparr>, CreatedAt = 102, UpdatedAt = 102\<rparr>] \<lparr>svc_NewObjectID = 9, svc_Now_created = 200, svc_Now_updated = 201,
        repo_Now = 202, repo_NewObjectID = 10\<rparr> (Some \<lparr>cr_FirstName = ''Mehmet'', cr_LastName = ''Demir'', cr_Plate = ''34 ABC 123'',
        cr_TaxiType = ''siyah'', cr_CarBrand = ''Renault'', cr_CarModel = ''Clio'',
        cr_Lat = 40, cr_Lon = 30\<rparr>) =
     (Inl (Wrap ''failed to create driver''
            (New ''driver with plate 34 ABC 123 already exists'')), [\<lparr>ID = 7, FirstName = ''Ayse'', LastName = ''Kaya'', Plate = ''34 ABC 123'',
        TaxiType = ''sari'', CarBrand = ''Fiat'', CarModel = ''Egea'',
        Location = \<lparr>Lat = 41, Lon = 29\<rparr>, CreatedAt = 102, UpdatedAt = 102\<rparr>]) \<and>
   \<not> errors_Is (Wrap ''failed to create driver''
                  (New ''driver with plate 34 ABC 123 already exists''))
        service_ErrDriverAlreadyExists \<and>
   handler_CreateDriver [\<lparr>ID = 7, FirstName = ''Ayse'', LastName = ''Kaya'', Plate = ''34 ABC 123'',
        TaxiType = ''sari'', CarBrand = ''Fiat'', CarModel = ''Egea'',
        Location = \<lparr>Lat = 41, Lon = 29\<rparr>, CreatedAt = 102, UpdatedAt = 102\<rparr>] \<lparr>svc_NewObjectID = 9, svc_Now_created = 200, svc_Now_updated = 201,
        repo_Now = 202, repo_NewObjectID = 10\<rparr> \<lparr>cr_FirstName = ''Mehmet'', cr_LastName = ''Demir'', cr_Plate = ''34 ABC 123'',
        cr_TaxiType = ''siyah'', cr_CarBrand = ''Renault'', cr_CarModel = ''Clio'',
        cr_Lat = 40, cr_Lon = 30\<rparr> = (500, [\<lparr>ID = 7, FirstName = ''Ayse'', LastName = ''Kaya'', Plate = ''34 ABC 123'',
        TaxiType = ''sari'', CarBrand = ''Fiat'', CarModel = ''Egea'',
        Location = \<lparr>Lat = 41, Lon = 29\<rparr>, CreatedAt = 102, UpdatedAt = 102\<rparr>])"
  by (simp add: CreateDriver_def handler_CreateDriver_def validate_example_requests
      repository_Create_def InsertOne_def IsDuplicateKeyError_def IsZero_def NilObjectID_def Hex_7)

subsection \<open>Deleting a driver that is not stored\<close>

lemma DeleteDriver_missing:
  assumes "find (\<lambda>x. ID x = oid) c = None"
  shows "DeleteDriver c (Hex oid) =
           (Some (Wrap ''failed to find driver''
                   (New (''driver with ID '' @ Hex oid @ '' not found''))), c)"
  using assms
  by (simp add: DeleteDriver_def Hex_nonempty repository_FindByID_def ObjectIDFromHex_Hex
      FindOne_def)

text \<open>
  C5. Claimed: deleting a well-formed identifier that no driver has fails with an
  error classified as NotFound and leaves the store unchanged. The existence
  check runs first, the call fails and the store is unchanged; but
  \<open>FindByID\<close> reports the missing document with a fresh error, not with
  \<open>ErrDriverNotFound\<close>, so the service's own test for that sentinel is false
  and it returns the generic "failed to find driver" error, which the handler
  answers with 500 instead of 404.
\<close>

theorem C5_missing_driver_is_not_classified_not_found:
  "DeleteDriver [\<lparr>ID = 7, FirstName = ''Ayse'', LastName = ''Kaya'', Plate = ''34 ABC 123'',
        TaxiType = ''sari'', CarBrand = ''Fiat'', CarModel = ''Egea'',
        Location = \<lparr>Lat = 41, Lon = 29\<rparr>, CreatedAt = 102, UpdatedAt = 102\<rparr>] ''000000000000000000000008'' =
     (Some (Wrap ''failed to find driver''
             (New ''driver with ID 000000000000000000000008 not found'')), [\<lparr>ID = 7, FirstName = ''Ayse'', LastName = ''Kaya'', Plate = ''34 ABC 123'',
        TaxiType = ''sari'', CarBrand = ''Fiat'', CarModel = ''Egea'',
        Location = \<lparr>Lat = 41, Lon = 29\<rparr>, CreatedAt = 102, UpdatedAt = 102\<rparr>]) \<and>
   \<not> errors_Is (Wrap ''failed to find driver''
                  (New ''driver with ID 000000000000000000000008 not found''))
        repository_ErrDriverNotFound \<and>
   \<not> errors_Is (Wrap ''failed to find driver''
                  (New ''driver with ID 000000000000000000000008 not found''))
        service_ErrDriverNotFound \<and>
   handler_DeleteDriver [\<lparr>ID = 7, FirstName = ''Ayse'', LastName = ''Kaya'', Plate = ''34 ABC 123'',
        TaxiType = ''sari'', CarBrand = ''Fiat'', CarModel = ''Egea'',
        Location = \<lparr>Lat = 41, Lon = 29\<rparr>, CreatedAt = 102, UpdatedAt = 102\<rparr>] ''000000000000000000000008'' = (500, [\<lparr>ID = 7, FirstName = ''Ayse'', LastName = ''Kaya'', Plate = ''34 ABC 123'',
        TaxiType = ''sari'', CarBrand = ''Fiat'', CarModel = ''Egea'',
        Location = \<lparr>Lat = 41, Lon = 29\<rparr>, CreatedAt = 102, UpdatedAt = 102\<rparr>])"
  by (simp add: DeleteDriver_def handler_DeleteDriver_def isValidObjectID_def
      repository_FindByID_def ObjectIDFromHex_8 FindOne_def)

subsection \<open>Rejected proximity queries\<close>

text \<open>
  A query with a coordinate out of range or with an unknown taxi category is
  rejected; the result does not depend on the store or on the distance function,
  so no repository query is behind it.
\<close>

lemma FindNearbyDrivers_rejects_before_query:
  assumes "lat < - 90 \<or> 90 < lat \<or> lon < - 180 \<or> 180 < lon \<or>
           (taxiType \<noteq> [] \<and> \<not> IsValidTaxiType taxiType)"
  shows "isl (FindNearbyDrivers g c lat lon taxiType) \<and>
         FindNearbyDrivers g c lat lon taxiType = FindNearbyDrivers g' c' lat lon taxiType"
  using assms by (elim disjE) (simp_all add: FindNearbyDrivers_def)

text \<open>
  C7. Claimed: a latitude or longitude out of range fails with an error classified
  as InvalidLocation, and an unknown non-empty taxi category with one classified
  as InvalidTaxiType, both before any repository query. Both calls fail before
  the repository is asked, but with fresh \<open>errors.New\<close> and \<open>fmt.Errorf\<close>
  errors that are not the sentinels \<open>ErrInvalidLocation\<close> and
  \<open>ErrInvalidTaxiType\<close>: the handler's \<open>errors.Is\<close> test fails and it answers
  500 for latitude 200 and for the category "gold".
\<close>

theorem C7_rejections_are_not_classified:
  "FindNearbyDrivers g c 200 29 [] = Inl (New ''invalid latitude: must be between -90 and 90'') \<and>
   \<not> errors_Is (New ''invalid latitude: must be between -90 and 90'') service_ErrInvalidLocation \<and>
   handler_FindNearbyDrivers g c 200 29 [] = 500 \<and>
   FindNearbyDrivers g c 41 29 ''gold'' =
     Inl (New ''invalid taxi type: gold (must be one of: sari, turkuaz, siyah)'') \<and>
   \<not> errors_Is (New ''invalid taxi type: gold (must be one of: sari, turkuaz, siyah)'')
        service_ErrInvalidTaxiType \<and>
   handler_FindNearbyDrivers g c 41 29 ''gold'' = 500"
  by (simp add: FindNearbyDrivers_def handler_FindNearbyDrivers_def IsValidTaxiType_def
      TaxiTypeSari_def TaxiTypeTurkuaz_def TaxiTypeSiyah_def)

section \<open>Proximity search\<close>

lemma repository_FindNearby_result:
  assumes "- 90 \<le> lat" "lat \<le> 90" "- 180 \<le> lon" "lon \<le> 180" "0 < radiusKm"
  shows "repository_FindNearby g c lat lon radiusKm taxiType =
           Inr (map (\<lambda>result. \<lparr>Driver = fst result, DistanceKm = snd result / 1000\<rparr>)
                 (fold run_stage
                    ((if taxiType \<noteq> [] \<and> IsValidTaxiType taxiType
                      then [Match_taxi_type taxiType] else []) @ [Limit 50])
                    (geoNear g (lon, lat) (radiusKm * 1000) c)))"
  using assms by (simp add: repository_FindNearby_def Aggregate_def Let_def)

lemma FindNearbyDrivers_accepts:
  assumes "- 90 \<le> lat" "lat \<le> 90" "- 180 \<le> lon" "lon \<le> 180"
    and "taxiType = [] \<or> IsValidTaxiType taxiType"
  shows "FindNearbyDrivers g c lat lon taxiType =
           (case repository_FindNearby g c lat lon 5 taxiType of
              Inl err \<Rightarrow> Inl (Wrap ''failed to find nearby drivers'' err)
            | Inr drivers \<Rightarrow> Inr drivers)"
  using assms by (auto simp: FindNearbyDrivers_def)

text \<open>
  The pipeline, read on the stored drivers: the server's list of pairs is the image
  of the drivers within the radius, sorted by their distance; the result is the
  image of the first 50 of them that have the category. If an element of a sorted
  list is missing from its first \<open>n\<close> elements, those are \<open>n\<close> elements that
  are no greater.
\<close>

lemma insort_key_map_pair:
  "insort_key snd (d, k d) (map (\<lambda>d. (d, k d)) xs) = map (\<lambda>d. (d, k d)) (insort_key k d xs)"
  by (induction xs) simp_all

lemma sort_key_map_pair:
  "sort_key snd (map (\<lambda>d. (d, k d)) xs) = map (\<lambda>d. (d, k d)) (sort_key k xs)"
  by (induction xs) (simp_all add: insort_key_map_pair)

lemma geoNear_eq:
  "geoNear g near m c =
     map (\<lambda>d. (d, g (Location d) near))
       (sort_key (\<lambda>d. g (Location d) near) (filter (\<lambda>d. g (Location d) near \<le> m) c))"
proof -
  have "filter (\<lambda>p. snd p \<le> m) (map (\<lambda>d. (d, g (Location d) near)) c) =
      map (\<lambda>d. (d, g (Location d) near)) (filter (\<lambda>d. g (Location d) near \<le> m) c)"
    by (simp add: filter_map comp_def)
  then show ?thesis
    by (simp add: geoNear_def sort_key_map_pair)
qed

lemma FindNearbyDrivers_result:
  assumes lat: "- 90 \<le> lat" "lat \<le> 90" and lon: "- 180 \<le> lon" "lon \<le> 180"
    and ty: "taxiType = [] \<or> IsValidTaxiType taxiType"
  shows "FindNearbyDrivers g c lat lon taxiType =
           Inr (map (\<lambda>d. \<lparr>Driver = d, DistanceKm = g (Location d) (lon, lat) / 1000\<rparr>)
                 (take 50 (filter (\<lambda>d. taxiType = [] \<or> TaxiType d = taxiType)
                    (sort_key (\<lambda>d. g (Location d) (lon, lat))
                       (filter (\<lambda>d. g (Location d) (lon, lat) \<le> 5000) c)))))"
proof -
  define xs where
    "xs = sort_key (\<lambda>d. g (Location d) (lon, lat))
            (filter (\<lambda>d. g (Location d) (lon, lat) \<le> 5000) c)"
  have gn: "geoNear g (lon, lat) (5 * 1000) c = map (\<lambda>d. (d, g (Location d) (lon, lat))) xs"
    by (simp add: geoNear_eq xs_def)
  have run: "fold run_stage
        ((if taxiType \<noteq> [] \<and> IsValidTaxiType taxiType then [Match_taxi_type taxiType] else [])
           @ [Limit 50])
        (map (\<lambda>d. (d, g (Location d) (lon, lat))) xs) =
      map (\<lambda>d. (d, g (Location d) (lon, lat)))
        (take 50 (filter (\<lambda>d. taxiType = [] \<or> TaxiType d = taxiType) xs))"
  proof (cases "taxiType = []")
    case True
    then show ?thesis
      by (simp add: take_map)
  next
    case False
    with ty have "IsValidTaxiType taxiType"
      by simp
    with False show ?thesis
      by (simp add: take_map filter_map comp_def)
  qed
  have "repository_FindNearby g c lat lon 5 taxiType =
      Inr (map (\<lambda>result. \<lparr>Driver = fst result, DistanceKm = snd result / 1000\<rparr>)
            (fold run_stage
               ((if taxiType \<noteq> [] \<and> IsValidTaxiType taxiType
                 then [Match_taxi_type taxiType] else []) @ [Limit 50])
               (geoNear g (lon, lat) (5 * 1000) c)))"
    by (rule repository_FindNearby_result) (use lat lon in simp_all)
  then have "repository_FindNearby g c lat lon 5 taxiType =
      Inr (map (\<lambda>result. \<lparr>Driver = fst result, DistanceKm = snd result / 1000\<rparr>)
            (map (\<lambda>d. (d, g (Location d) (lon, lat)))
               (take 50 (filter (\<lambda>d. taxiType = [] \<or> TaxiType d = taxiType) xs))))"
    by (simp only: gn run)
  then have "repository_FindNearby g c lat lon 5 taxiType =
      Inr (map (\<lambda>d. \<lparr>Driver = d, DistanceKm = g (Location d) (lon, lat) / 1000\<rparr>)
            (take 50 (filter (\<lambda>d. taxiType = [] \<or> TaxiType d = taxiType) xs)))"
    by (simp add: comp_def)
  then show ?thesis
    using FindNearbyDrivers_accepts [OF lat lon ty, of g c] by (simp add: xs_def)
qed


text \<open>The great-circle distance of a point from itself is 0.\<close>

lemma great_circle_same_point: "great_circle p p = 0"
  by (simp add: great_circle_def radians_def)

lemma store_distance_at_point: "store_distance \<lparr>Lat = lat, Lon = lon\<rparr> (lon, lat) = 0"
  by (simp add: store_distance_def great_circle_same_point)

text \<open>The search on the example store, at the second driver's coordinates.\<close>

lemma FindNearbyDrivers_example:
  "FindNearbyDrivers example_distance example_drivers 41 29 [] =
     Inr [\<lparr>Driver = example_drivers ! 1, DistanceKm = 0\<rparr>,
          \<lparr>Driver = example_drivers ! 0, DistanceKm = 0.222\<rparr>]"
  by (simp add: FindNearbyDrivers_def repository_FindNearby_def Aggregate_def geoNear_def
      example_distance_def example_drivers_def Let_def)

text \<open>
  With the great-circle distance, the driver of the example store who is at
  (41, 29) is in the result of the search at (41, 29), with distance 0.
\<close>

lemma FindNearbyDrivers_at_example_point:
  "\<exists>ds. FindNearbyDrivers store_distance example_drivers 41 29 [] = Inr ds \<and>
        \<lparr>Driver = example_drivers ! 1, DistanceKm = 0\<rparr> \<in> set ds"
proof -
  define D where "D = (\<lambda>d::Driver. store_distance (Location d) (29, 41))"
  define zs where
    "zs = filter (\<lambda>d::Driver. ([]::string) = [] \<or> TaxiType d = [])
            (sort_key D (filter (\<lambda>d. D d \<le> 5000) example_drivers))"
  have res: "FindNearbyDrivers store_distance example_drivers 41 29 [] =
      Inr (map (\<lambda>d. \<lparr>Driver = d, DistanceKm = D d / 1000\<rparr>) (take 50 zs))"
    unfolding zs_def D_def by (rule FindNearbyDrivers_result) simp_all
  have "length zs \<le> length example_drivers"
    unfolding zs_def
    by (rule order_trans [OF length_filter_le]) (simp add: order_trans [OF _ length_filter_le])
  also have "\<dots> \<le> 50"
    by (simp add: example_drivers_def)
  finally have all: "take 50 zs = zs"
    by simp
  define d2 where "d2 = example_drivers ! 1"
  have here: "D d2 = 0"
    by (simp add: d2_def D_def example_drivers_def store_distance_at_point)
  have "d2 \<in> set example_drivers"
    by (simp add: d2_def example_drivers_def)
  with here have "d2 \<in> set zs"
    by (simp add: zs_def)
  then have "\<lparr>Driver = d2, DistanceKm = D d2 / 1000\<rparr>
      \<in> set (map (\<lambda>d. \<lparr>Driver = d, DistanceKm = D d / 1000\<rparr>) zs)"
    unfolding set_map by (rule imageI)
  then have "\<lparr>Driver = d2, DistanceKm = 0\<rparr>
      \<in> set (map (\<lambda>d. \<lparr>Driver = d, DistanceKm = D d / 1000\<rparr>) (take 50 zs))"
    by (simp add: here all)
  with res show ?thesis
    unfolding d2_def by blast
qed



text \<open>
  C10. For a non-empty taxi category that is none of the three, and coordinates
  and radius that the repository accepts, the repository's \<open>FindNearby\<close> does
  not fail and returns exactly what it returns for the empty category, that is
  the nearby drivers of all categories; the service's \<open>FindNearbyDrivers\<close>
  rejects the same category.
\<close>

theorem C10_repository_ignores_unknown_category:
  assumes ty: "taxiType \<noteq> []" "\<not> IsValidTaxiType taxiType"
    and range: "- 90 \<le> lat" "lat \<le> 90" "- 180 \<le> lon" "lon \<le> 180" and radius: "0 < radiusKm"
  shows "repository_FindNearby g c lat lon radiusKm taxiType =
           repository_FindNearby g c lat lon radiusKm [] \<and>
         (\<exists>ds. repository_FindNearby g c lat lon radiusKm taxiType = Inr ds) \<and>
         (\<exists>err. FindNearbyDrivers g c lat lon taxiType = Inl err)"
proof -
  have "repository_FindNearby g c lat lon radiusKm taxiType =
      repository_FindNearby g c lat lon radiusKm []"
    using ty by (simp add: repository_FindNearby_def)
  moreover have "\<exists>ds. repository_FindNearby g c lat lon radiusKm taxiType = Inr ds"
    using repository_FindNearby_result [OF range radius] by blast
  moreover have "\<exists>err. FindNearbyDrivers g c lat lon taxiType = Inl err"
    using ty range by (simp add: FindNearbyDrivers_def)
  ultimately show ?thesis
    by blast
qed

text \<open>The theorem at the category "gold" on the example store.\<close>

theorem C10_repository_ignores_unknown_category_witness:
  "''gold'' \<noteq> [] \<and> \<not> IsValidTaxiType ''gold'' \<and>
   - 90 \<le> (41::real) \<and> (41::real) \<le> 90 \<and> - 180 \<le> (29::real) \<and> (29::real) \<le> 180 \<and>
   0 < (5::real) \<and>
   repository_FindNearby example_distance example_drivers 41 29 5 ''gold'' =
     repository_FindNearby example_distance example_drivers 41 29 5 [] \<and>
   (\<exists>ds. repository_FindNearby example_distance example_drivers 41 29 5 ''gold'' = Inr ds) \<and>
   (\<exists>err. FindNearbyDrivers example_distance example_drivers 41 29 ''gold'' = Inl err)"
proof -
  have ty: "''gold'' \<noteq> []" "\<not> IsValidTaxiType ''gold''"
    by (simp_all add: IsValidTaxiType_def TaxiTypeSari_def TaxiTypeTurkuaz_def TaxiTypeSiyah_def)
  have range: "- 90 \<le> (41::real)" "(41::real) \<le> 90" "- 180 \<le> (29::real)" "(29::real) \<le> 180"
    by simp_all
  have radius: "0 < (5::real)"
    by simp
  show ?thesis
    using ty range radius
      C10_repository_ignores_unknown_category
        [OF ty range radius, of example_distance example_drivers]
    by blast
qed

section \<open>Pagination\<close>

lemma wrap64_id: "- (2 ^ 63) \<le> x \<Longrightarrow> x < 2 ^ 63 \<Longrightarrow> wrap64 x = x"
  by (simp add: wrap64_def)

lemma sort_created_at_desc_sorted:
  "sorted_wrt (\<lambda>a b. CreatedAt b \<le> CreatedAt a) (sort_created_at_desc c)"
proof -
  have "sorted (map (\<lambda>d. - CreatedAt d) (sort_key (\<lambda>d. - CreatedAt d) c))"
    by (rule sorted_sort_key)
  then show ?thesis
    by (simp add: sort_created_at_desc_def sorted_map)
qed

lemma set_sort_created_at_desc: "set (sort_created_at_desc c) = set c"
  by (simp add: sort_created_at_desc_def)

lemma length_sort_created_at_desc: "length (sort_created_at_desc c) = length c"
  by (simp add: sort_created_at_desc_def)

lemma repository_FindAll_normalized:
  assumes "1 \<le> page" "1 \<le> pageSize" "pageSize \<le> 100"
  shows "repository_FindAll c page pageSize =
           (case Find_sorted c (wrap64 (wrap64 (page - 1) * pageSize)) pageSize of
              Inl err \<Rightarrow> Inl (Wrap ''failed to find drivers'' err)
            | Inr drivers \<Rightarrow> Inr (drivers, int (length c)))"
  using assms by (simp add: repository_FindAll_def CountDocuments_def Let_def)

lemma ListDrivers_unfold:
  "ListDrivers c page pageSize =
     (let page' = (if page < 1 then 1 else page);
          pageSize' = (if pageSize < 1 then 10 else if 100 < pageSize then 100 else pageSize)
      in case Find_sorted c (wrap64 (wrap64 (page' - 1) * pageSize')) pageSize' of
           Inl err \<Rightarrow> Inl (Wrap ''failed to list drivers'' (Wrap ''failed to find drivers'' err))
         | Inr drivers \<Rightarrow>
             Inr \<lparr>Data = drivers, Page = page', PageSize = pageSize',
                  TotalCount = int (length c),
                  TotalPages = \<lceil>real_of_int (int (length c)) / real_of_int pageSize'\<rceil>\<rparr>)"
  by (auto simp: ListDrivers_def repository_FindAll_def CountDocuments_def Let_def split: sum.splits)


lemma ListDrivers_total_pages:
  assumes "ListDrivers c page pageSize = Inr r"
  shows "TotalCount r = int (length c) \<and>
         TotalPages r = \<lceil>real_of_int (TotalCount r) / real_of_int (PageSize r)\<rceil>"
  using assms by (auto simp: ListDrivers_unfold Let_def split: sum.splits)

text \<open>The list operation on the example store, with a page of 0 and a page size of 100000.\<close>

lemma ListDrivers_example:
  "ListDrivers example_drivers 0 100000 =
     Inr \<lparr>Data = [example_drivers ! 2, example_drivers ! 1, example_drivers ! 0],
          Page = 1, PageSize = 100, TotalCount = 3, TotalPages = 1\<rparr>"
  by (simp add: ListDrivers_unfold Find_sorted_def sort_created_at_desc_def wrap64_def
      example_drivers_def)

text \<open>
  C8, as claimed: the page size is brought into [1, 100] by clamping. A page size
  of 0 comes out as 10, the default, where clamping to the range would give 1.
\<close>

theorem C8_page_size_zero_becomes_ten:
  "ListDrivers [] 1 0 =
     Inr \<lparr>Data = [], Page = 1, PageSize = 10, TotalCount = 0, TotalPages = 0\<rparr> \<and>
   (10::int) \<noteq> max 1 (min 100 0)"
  by (simp add: ListDrivers_unfold Find_sorted_def sort_created_at_desc_def wrap64_def)

text \<open>
  C8, amended. For every pair (page, pageSize) whose skip, the normalized page
  minus one times the normalized page size, fits a 64-bit integer, \<open>ListDrivers\<close>
  succeeds; a page below 1 becomes 1; a page size below 1 becomes 10, one above
  100 becomes 100 and any other is kept, so it ends in [1, 100]; the returned page
  holds at most that many, hence at most 100, drivers of the store, newest-created
  first.
\<close>

theorem C8_list_normalizes_and_orders:
  assumes fits: "((if page < 1 then 1 else page) - 1) *
                 (if pageSize < 1 then 10 else if 100 < pageSize then 100 else pageSize) < 2 ^ 63"
  shows "\<exists>r. ListDrivers c page pageSize = Inr r \<and>
           Page r = (if page < 1 then 1 else page) \<and>
           PageSize r = (if pageSize < 1 then 10 else if 100 < pageSize then 100 else pageSize) \<and>
           1 \<le> Page r \<and> 1 \<le> PageSize r \<and> PageSize r \<le> 100 \<and>
           int (length (Data r)) \<le> PageSize r \<and> length (Data r) \<le> 100 \<and>
           set (Data r) \<subseteq> set c \<and>
           sorted_wrt (\<lambda>a b. CreatedAt b \<le> CreatedAt a) (Data r)"
proof -
  define page' where "page' = (if page < 1 then 1 else page)"
  define pageSize' where
    "pageSize' = (if pageSize < 1 then 10 else if 100 < pageSize then 100 else pageSize)"
  define skip where "skip = (page' - 1) * pageSize'"
  define drivers where "drivers = take (nat pageSize') (drop (nat skip) (sort_created_at_desc c))"
  have norm: "1 \<le> page'" "1 \<le> pageSize'" "pageSize' \<le> 100"
    by (simp_all add: page'_def pageSize'_def)
  have skip_bound: "skip < 2 ^ 63"
    using fits by (simp add: skip_def page'_def pageSize'_def)
  have skip_nonneg: "0 \<le> skip"
    using norm by (simp add: skip_def)
  have "page' - 1 \<le> (page' - 1) * pageSize'"
    using norm by (simp add: mult_le_cancel_left1)
  then have "page' - 1 < 2 ^ 63"
    using skip_bound by (simp add: skip_def)
  then have "wrap64 (page' - 1) = page' - 1"
    using norm by (intro wrap64_id) simp_all
  then have w: "wrap64 (wrap64 (page' - 1) * pageSize') = skip"
    using skip_bound skip_nonneg by (simp add: skip_def [symmetric] wrap64_id)
  have found: "Find_sorted c skip pageSize' = Inr drivers"
    using skip_nonneg norm by (simp add: Find_sorted_def drivers_def Let_def)
  have res: "ListDrivers c page pageSize =
      Inr \<lparr>Data = drivers, Page = page', PageSize = pageSize', TotalCount = int (length c),
           TotalPages = \<lceil>real_of_int (int (length c)) / real_of_int pageSize'\<rceil>\<rparr>"
    unfolding ListDrivers_unfold Let_def page'_def [symmetric] pageSize'_def [symmetric]
    by (simp add: w found)
  have len: "int (length drivers) \<le> pageSize'"
    using norm by (simp add: drivers_def)
  then have len100: "length drivers \<le> 100"
    using norm by simp
  have sub: "set drivers \<subseteq> set c"
    unfolding drivers_def
    using set_take_subset [of "nat pageSize'" "drop (nat skip) (sort_created_at_desc c)"]
      set_drop_subset [of "nat skip" "sort_created_at_desc c"]
    by (auto simp: set_sort_created_at_desc)
  have srt: "sorted_wrt (\<lambda>a b. CreatedAt b \<le> CreatedAt a) drivers"
    unfolding drivers_def by (intro sorted_wrt_take sorted_wrt_drop sort_created_at_desc_sorted)
  show ?thesis
    using res norm len len100 sub srt by (simp add: page'_def pageSize'_def)
qed

text \<open>The theorem at page 0 and page size 100000 on the example store.\<close>

theorem C8_list_normalizes_and_orders_witness:
  "((if (0::int) < 1 then (1::int) else 0) - 1) *
     (if (100000::int) < 1 then (10::int) else if 100 < (100000::int) then 100 else 100000) < 2 ^ 63 \<and>
   (\<exists>r. ListDrivers example_drivers 0 100000 = Inr r \<and>
      Page r = (if (0::int) < 1 then (1::int) else 0) \<and>
      PageSize r = (if (100000::int) < 1 then (10::int) else if 100 < (100000::int) then 100 else 100000) \<and>
      1 \<le> Page r \<and> 1 \<le> PageSize r \<and> PageSize r \<le> 100 \<and>
      int (length (Data r)) \<le> PageSize r \<and> length (Data r) \<le> 100 \<and>
      set (Data r) \<subseteq> set example_drivers \<and>
      sorted_wrt (\<lambda>a b. CreatedAt b \<le> CreatedAt a) (Data r))"
proof -
  have fits: "((if (0::int) < 1 then (1::int) else 0) - 1) *
     (if (100000::int) < 1 then (10::int) else if 100 < (100000::int) then 100 else 100000) < 2 ^ 63"
    by simp
  show ?thesis
    by (intro conjI fits
        C8_list_normalizes_and_orders
          [where page = 0 and pageSize = 100000 and c = example_drivers, OF fits])
qed

text \<open>
  The page count is the ceiling of the count over the normalized page size
  (\<open>ListDrivers_total_pages\<close>), and a page beyond the last one is empty as long as
  the skip fits a 64-bit integer:
\<close>

lemma ListDrivers_beyond_last_page:
  assumes fits: "(page - 1) * pageSize < 2 ^ 63"
    and size: "1 \<le> pageSize" "pageSize \<le> 100"
    and beyond: "\<lceil>real_of_int (int (length c)) / real_of_int pageSize\<rceil> < page"
  shows "ListDrivers c page pageSize =
           Inr \<lparr>Data = [], Page = page, PageSize = pageSize, TotalCount = int (length c),
                TotalPages = \<lceil>real_of_int (int (length c)) / real_of_int pageSize\<rceil>\<rparr>"
proof -
  have "(0::real) \<le> real_of_int (int (length c)) / real_of_int pageSize"
    using size by simp
  then have "\<lceil>0::real\<rceil> \<le> \<lceil>real_of_int (int (length c)) / real_of_int pageSize\<rceil>"
    by (rule ceiling_mono)
  then have "0 \<le> \<lceil>real_of_int (int (length c)) / real_of_int pageSize\<rceil>"
    by simp
  then have page: "1 \<le> page"
    using beyond by linarith
  have "real_of_int (int (length c)) / real_of_int pageSize \<le> real_of_int (page - 1)"
    using beyond by (simp add: ceiling_less_iff)
  then have "real_of_int (int (length c)) \<le> real_of_int (page - 1) * real_of_int pageSize"
    using size by (simp add: pos_divide_le_eq)
  then have many: "int (length c) \<le> (page - 1) * pageSize"
    by (metis of_int_le_iff of_int_mult)
  have nonneg: "0 \<le> (page - 1) * pageSize"
    using page size by simp
  have "page - 1 \<le> (page - 1) * pageSize"
    using page size by (simp add: mult_le_cancel_left1)
  then have "wrap64 (page - 1) = page - 1"
    using fits page by (intro wrap64_id) simp_all
  moreover have "wrap64 ((page - 1) * pageSize) = (page - 1) * pageSize"
    using fits nonneg by (intro wrap64_id) simp_all
  ultimately have w: "wrap64 (wrap64 (page - 1) * pageSize) = (page - 1) * pageSize"
    by simp
  have "length c \<le> nat ((page - 1) * pageSize)"
    using many by simp
  then have "Find_sorted c ((page - 1) * pageSize) pageSize = Inr []"
    using nonneg size by (simp add: Find_sorted_def Let_def length_sort_created_at_desc)
  then show ?thesis
    using page size by (simp add: ListDrivers_unfold Let_def w)
qed

text \<open>
  C9. Claimed: the page count is the ceiling of the total count over the
  normalized page size, and a page number beyond it succeeds with zero records.
  The first part holds. The skip \<open>(page - 1) * pageSize\<close> is computed in Go's
  64-bit \<open>int\<close> without a check: for page \<open>2^58 + 1\<close> and page size 64 the
  product is \<open>2^64\<close>, which wraps to 0, and the call returns the first page of
  the store, three drivers, under a page number far beyond the page count 1.
\<close>

theorem C9_page_beyond_last_returns_records:
  "ListDrivers example_drivers 288230376151711745 64 =
     Inr \<lparr>Data = [example_drivers ! 2, example_drivers ! 1, example_drivers ! 0],
          Page = 288230376151711745, PageSize = 64, TotalCount = 3, TotalPages = 1\<rparr>"
  by (simp add: ListDrivers_unfold Find_sorted_def sort_created_at_desc_def wrap64_def
      example_drivers_def)

end
